theory Spec2Isabelle
  imports Main
begin

section \<open>WS66i: the polling coordinator\<close>

text \<open>
  Source: \<^verbatim>\<open>homeassistant/components/ws66i/coordinator.py\<close>.

  The coordinator holds a handle on the vendor's amplifier API (\<^verbatim>\<open>self._ws66i\<close>) and
  the list of configured zone ids (\<^verbatim>\<open>self._zones\<close>). One update walks the zone
  list and asks the amplifier for the status of each zone.
\<close>

subsection \<open>Python's decimal rendering of an integer\<close>

text \<open>
  The failure message is the f-string \<^verbatim>\<open>f"Failed to update zone {zone_id}"\<close>; the zone
  ids are Python ints (\<^verbatim>\<open>zones: list[int]\<close>), rendered in decimal, with a leading
  minus sign when negative.
\<close>

definition digit_char :: "nat \<Rightarrow> char" where
  "digit_char d = ''0123456789'' ! d"

function str_nat :: "nat \<Rightarrow> string" where
  "str_nat n = (if n < 10 then [digit_char n] else str_nat (n div 10) @ [digit_char (n mod 10)])"
  by pat_completeness auto
termination
  by (relation "measure (\<lambda>n. n)") auto

definition str_int :: "int \<Rightarrow> string" where
  "str_int i = (if i < 0 then CHR ''-'' # str_nat (nat (- i)) else str_nat (nat i))"

subsection \<open>The vendor call and the exceptions\<close>

text \<open>
  \<^verbatim>\<open>WS66i.zone_status(zone_id)\<close> is a call into the vendor library. It either returns
  (a \<^verbatim>\<open>ZoneStatus\<close>, or \<^verbatim>\<open>None\<close> when the amplifier gave no data) or raises an
  exception of the vendor's. The amplifier is a device with a state of its own, so the
  call is a function of the device state that also yields the next device state.
  \<^verbatim>\<open>'z\<close> is the vendor's \<^verbatim>\<open>ZoneStatus\<close>, \<^verbatim>\<open>'x\<close> the exceptions the vendor
  call can raise, \<^verbatim>\<open>'v\<close> the state of the device.
\<close>

datatype ('z, 'x) call_result = Returns "'z option" | Raises 'x

record ('v, 'z, 'x) WS66i =
  zone_status :: "'v \<Rightarrow> int \<Rightarrow> ('z, 'x) call_result \<times> 'v"

text \<open>
  What leaves \<^verbatim>\<open>_update_all_zones\<close> as an exception: the host's \<^verbatim>\<open>UpdateFailed\<close>
  with its message, raised by the coordinator itself, or an exception of the vendor call,
  which no \<^verbatim>\<open>try\<close> block of the coordinator catches.
\<close>

datatype 'x exn = UpdateFailed string | VendorError 'x

record ('v, 'z, 'x) Ws66iDataUpdateCoordinator =
  self_ws66i :: "('v, 'z, 'x) WS66i"
  self_zones :: "int list"

definition Ws66iDataUpdateCoordinator_init ::
  "('v, 'z, 'x) WS66i \<Rightarrow> int list \<Rightarrow> ('v, 'z, 'x) Ws66iDataUpdateCoordinator" where
  "Ws66iDataUpdateCoordinator_init my_api zones = \<lparr>self_ws66i = my_api, self_zones = zones\<rparr>"

subsection \<open>One update\<close>

text \<open>
  The \<^verbatim>\<open>for\<close> loop of \<^verbatim>\<open>_update_all_zones\<close>, as a recursion on the zones still to
  visit. \<^verbatim>\<open>data\<close> is the list built so far and \<^verbatim>\<open>dev\<close> the device state. The last
  argument records the vendor calls made so far, each with its zone id and what the call
  gave, in the order they were made: it is how a statement can say which zones were
  queried.
\<close>

type_synonym ('z, 'x) calls = "(int \<times> ('z, 'x) call_result) list"

fun update_loop ::
  "('v, 'z, 'x) WS66i \<Rightarrow> int list \<Rightarrow> 'z list \<Rightarrow> 'v \<Rightarrow> ('z, 'x) calls \<Rightarrow>
     ('x exn + 'z list) \<times> 'v \<times> ('z, 'x) calls" where
  "update_loop api [] data dev calls = (Inr data, dev, calls)"
| "update_loop api (zone_id # rest) data dev calls =
     (case zone_status api dev zone_id of
        (Raises x, dev') \<Rightarrow> (Inl (VendorError x), dev', calls @ [(zone_id, Raises x)])
      | (Returns None, dev') \<Rightarrow>
          (Inl (UpdateFailed (''Failed to update zone '' @ str_int zone_id)), dev',
           calls @ [(zone_id, Returns None)])
      | (Returns (Some data_zone), dev') \<Rightarrow>
          update_loop api rest (data @ [data_zone]) dev'
            (calls @ [(zone_id, Returns (Some data_zone))]))"

text \<open>
  \<^verbatim>\<open>_update_all_zones\<close>: the loop from an empty \<^verbatim>\<open>data\<close>. The result is what the
  method returns or raises, the coordinator after the call, the device after the call and
  the vendor calls made.
\<close>

record ('v, 'z, 'x) update_run =
  outcome :: "'x exn + 'z list"
  self_after :: "('v, 'z, 'x) Ws66iDataUpdateCoordinator"
  device_after :: 'v
  queried :: "('z, 'x) calls"

definition update_all_zones ::
  "('v, 'z, 'x) Ws66iDataUpdateCoordinator \<Rightarrow> 'v \<Rightarrow> ('v, 'z, 'x) update_run" where
  "update_all_zones self dev =
     (case update_loop (self_ws66i self) (self_zones self) [] dev [] of
        (res, dev', calls) \<Rightarrow>
          \<lparr>outcome = res, self_after = self, device_after = dev', queried = calls\<rparr>)"

text \<open>
  What the vendor answers. The statements below say what the amplifier returns in terms
  of \<^verbatim>\<open>zone_status\<close> itself: asked for the first zones of the list one after the
  other, from the device state \<^verbatim>\<open>devs ! 0\<close> on, the vendor returns the statuses
  \<^verbatim>\<open>ss\<close>, one for each of these zones, and the device goes through the states
  \<^verbatim>\<open>devs\<close>.
\<close>

definition vendor_returns_statuses ::
  "('v, 'z, 'x) WS66i \<Rightarrow> 'v list \<Rightarrow> int list \<Rightarrow> 'z list \<Rightarrow> bool" where
  "vendor_returns_statuses api devs zones ss \<longleftrightarrow>
     length devs = Suc (length ss) \<and> length ss \<le> length zones \<and>
     (\<forall>j < length ss.
        zone_status api (devs ! j) (zones ! j) = (Returns (Some (ss ! j)), devs ! Suc j))"

subsection \<open>The asynchronous update\<close>

text \<open>
  \<^verbatim>\<open>_async_update_data\<close> is a coroutine. Its body is
  \<^verbatim>\<open>return await self.hass.async_add_executor_job(self._update_all_zones)\<close>: it hands
  the bound method to the host's executor and suspends; when it goes on, an exception of
  the job is raised in it, where nothing catches it, and a value of the job is what it
  returns. A coroutine is written as what it does next: return, raise, or hand a job to
  the executor and go on with what awaiting the job gives.
\<close>

datatype ('j, 'e, 'a) coroutine =
    Return 'a
  | Raise 'e
  | Await_executor_job 'j "'e + 'a \<Rightarrow> ('j, 'e, 'a) coroutine"

definition async_update_data ::
  "('v, 'z, 'x) Ws66iDataUpdateCoordinator \<Rightarrow>
     ('v \<Rightarrow> ('v, 'z, 'x) update_run, 'x exn, 'z list) coroutine" where
  "async_update_data self =
     Await_executor_job (update_all_zones self)
       (\<lambda>awaited. case awaited of Inl e \<Rightarrow> Raise e | Inr data \<Rightarrow> Return data)"

text \<open>
  Modelled from the spec: the host's executor and event loop
  (\<^verbatim>\<open>hass.async_add_executor_job\<close> and the awaiting of its result, in
  \<^verbatim>\<open>homeassistant/core.py\<close>, which is not among the sources). The spec has the
  coordinator "invoke a vendor library's synchronous calls inside an executor", the
  blocking call being delegated to the executor: the executor runs the job it is handed, on
  the device as it is then, and the coroutine that awaits the job goes on with what the job
  gave. The result is the jobs handed to the executor, in order, what the coroutine
  returned or raised, and the device afterwards.
\<close>

primrec run_coroutine ::
  "('v \<Rightarrow> ('v, 'z, 'x) update_run, 'x exn, 'z list) coroutine \<Rightarrow> 'v \<Rightarrow>
     ('v \<Rightarrow> ('v, 'z, 'x) update_run) list \<times> ('x exn + 'z list) \<times> 'v" where
  "run_coroutine (Return data) = (\<lambda>dev. ([], Inr data, dev))"
| "run_coroutine (Raise e) = (\<lambda>dev. ([], Inl e, dev))"
| "run_coroutine (Await_executor_job job k) =
     (\<lambda>dev. case run_coroutine (k (outcome (job dev))) (device_after (job dev)) of
              (jobs, res, dev') \<Rightarrow> (job # jobs, res, dev'))"

section \<open>Nexia: the entity base classes\<close>

text \<open>
  Source: \<^verbatim>\<open>homeassistant/components/nexia/entity.py\<close>.
\<close>

subsection \<open>What the module imports\<close>

text \<open>
  The constants come from \<^verbatim>\<open>.const\<close> and \<^verbatim>\<open>homeassistant.const\<close>, whose values are
  not part of this module: they are taken as they come, one field for each imported name.
\<close>

record nexia_const =
  ATTR_ATTRIBUTION :: string
  ATTRIBUTION :: string
  DOMAIN :: string
  MANUFACTURER :: string
  SIGNAL_THERMOSTAT_UPDATE :: string
  SIGNAL_ZONE_UPDATE :: string

text \<open>
  The vendor's objects, as far as the entities read them: the attribute
  \<^verbatim>\<open>thermostat_id\<close> and the getters \<^verbatim>\<open>get_model()\<close>, \<^verbatim>\<open>get_name()\<close>,
  \<^verbatim>\<open>get_firmware()\<close> of a thermostat; the attributes \<^verbatim>\<open>zone_id\<close> and
  \<^verbatim>\<open>thermostat\<close> and the getter \<^verbatim>\<open>get_name()\<close> of a zone. \<^verbatim>\<open>'i\<close> is the vendor's
  type of ids.
\<close>

record 'i NexiaThermostat =
  thermostat_id :: 'i
  thermostat_get_model :: string
  thermostat_get_name :: string
  thermostat_get_firmware :: string

record 'i NexiaThermostatZone =
  zone_id :: 'i
  zone_thermostat :: "'i NexiaThermostat"
  zone_get_name :: string

text \<open>
  The coordinator an entity is built on. \<^verbatim>\<open>device_info\<close> asserts that it is a
  \<^verbatim>\<open>NexiaDataUpdateCoordinator\<close> and reads \<^verbatim>\<open>nexia_home.root_url\<close> from it; any
  other object fails the assertion.
\<close>

record NexiaHome =
  root_url :: string

datatype coordinator = NexiaDataUpdateCoordinator NexiaHome | OtherCoordinator

datatype py_error = AssertionError

text \<open>
  A \<^verbatim>\<open>DeviceInfo\<close> is a dictionary from key names to values: strings, the set of
  identifier pairs, and the pair that names the device this one is reached through.
\<close>

datatype 'i info_value = Str string | Identifiers "(string \<times> 'i) set" | Device "string \<times> 'i"

type_synonym 'i DeviceInfo = "string \<rightharpoonup> 'i info_value"

subsection \<open>NexiaEntity\<close>

record NexiaEntity =
  self_coordinator :: coordinator
  self_unique_id :: string
  self_name :: string

definition NexiaEntity_init :: "coordinator \<Rightarrow> string \<Rightarrow> string \<Rightarrow> NexiaEntity" where
  "NexiaEntity_init coordinator name unique_id =
     \<lparr>self_coordinator = coordinator, self_unique_id = unique_id, self_name = name\<rparr>"

text \<open>
  The properties are written with explicit state passing: each gives its value and the
  entity as the evaluation leaves it. They are defined on every extension of the record,
  as the subclasses inherit them.
\<close>

definition NexiaEntity_unique_id :: "'a NexiaEntity_scheme \<Rightarrow> string \<times> 'a NexiaEntity_scheme" where
  "NexiaEntity_unique_id self = (self_unique_id self, self)"

definition NexiaEntity_name :: "'a NexiaEntity_scheme \<Rightarrow> string \<times> 'a NexiaEntity_scheme" where
  "NexiaEntity_name self = (self_name self, self)"

definition NexiaEntity_extra_state_attributes ::
  "nexia_const \<Rightarrow> 'a NexiaEntity_scheme \<Rightarrow> (string \<rightharpoonup> string) \<times> 'a NexiaEntity_scheme" where
  "NexiaEntity_extra_state_attributes k self = ([ATTR_ATTRIBUTION k \<mapsto> ATTRIBUTION k], self)"

subsection \<open>NexiaThermostatEntity\<close>

record 'i NexiaThermostatEntity = NexiaEntity +
  self_thermostat :: "'i NexiaThermostat"

definition NexiaThermostatEntity_init ::
  "coordinator \<Rightarrow> 'i NexiaThermostat \<Rightarrow> string \<Rightarrow> string \<Rightarrow> 'i NexiaThermostatEntity" where
  "NexiaThermostatEntity_init coordinator thermostat name unique_id =
     NexiaEntity.extend (NexiaEntity_init coordinator name unique_id)
       (NexiaThermostatEntity.fields thermostat)"

definition NexiaThermostatEntity_device_info ::
  "nexia_const \<Rightarrow> ('i, 'a) NexiaThermostatEntity_scheme \<Rightarrow>
     (py_error + 'i DeviceInfo) \<times> ('i, 'a) NexiaThermostatEntity_scheme" where
  "NexiaThermostatEntity_device_info k self =
     (case self_coordinator self of
        OtherCoordinator \<Rightarrow> (Inl AssertionError, self)
      | NexiaDataUpdateCoordinator nexia_home \<Rightarrow>
          (Inr [''configuration_url'' \<mapsto> Str (root_url nexia_home),
                ''identifiers'' \<mapsto> Identifiers {(DOMAIN k, thermostat_id (self_thermostat self))},
                ''manufacturer'' \<mapsto> Str (MANUFACTURER k),
                ''model'' \<mapsto> Str (thermostat_get_model (self_thermostat self)),
                ''name'' \<mapsto> Str (thermostat_get_name (self_thermostat self)),
                ''sw_version'' \<mapsto> Str (thermostat_get_firmware (self_thermostat self))],
           self))"

text \<open>
  The calls an entity makes into the host, in the order it makes them. The host object
  \<^verbatim>\<open>self.hass\<close> each of them is given is the same throughout and is left out.
  \<^verbatim>\<open>async_dispatcher_connect\<close> returns the function that undoes the subscription, which
  the entity hands to \<^verbatim>\<open>async_on_remove\<close>.
\<close>

datatype callback = async_write_ha_state

datatype unsubscribe = disconnect string callback

datatype host_call =
    CoordinatorEntity_async_added_to_hass
  | async_dispatcher_connect string callback
  | async_on_remove unsubscribe
  | async_dispatcher_send string

text \<open>
  The signal names are f-strings over an id of the vendor's; \<^verbatim>\<open>format_id\<close> is Python's
  rendering of such an id.
\<close>

definition NexiaThermostatEntity_async_added_to_hass ::
  "('i \<Rightarrow> string) \<Rightarrow> nexia_const \<Rightarrow> ('i, 'a) NexiaThermostatEntity_scheme \<Rightarrow> host_call list" where
  "NexiaThermostatEntity_async_added_to_hass format_id k self =
     [CoordinatorEntity_async_added_to_hass,
      async_dispatcher_connect
        (SIGNAL_THERMOSTAT_UPDATE k @ ''-'' @ format_id (thermostat_id (self_thermostat self)))
        async_write_ha_state,
      async_on_remove
        (disconnect
          (SIGNAL_THERMOSTAT_UPDATE k @ ''-'' @ format_id (thermostat_id (self_thermostat self)))
          async_write_ha_state)]"

definition NexiaThermostatEntity_signal_thermostat_update ::
  "('i \<Rightarrow> string) \<Rightarrow> nexia_const \<Rightarrow> ('i, 'a) NexiaThermostatEntity_scheme \<Rightarrow> host_call list" where
  "NexiaThermostatEntity_signal_thermostat_update format_id k self =
     [async_dispatcher_send
        (SIGNAL_THERMOSTAT_UPDATE k @ ''-'' @ format_id (thermostat_id (self_thermostat self)))]"

subsection \<open>NexiaThermostatZoneEntity\<close>

record 'i NexiaThermostatZoneEntity = "'i NexiaThermostatEntity" +
  self_zone :: "'i NexiaThermostatZone"

definition NexiaThermostatZoneEntity_init ::
  "coordinator \<Rightarrow> 'i NexiaThermostatZone \<Rightarrow> string \<Rightarrow> string \<Rightarrow> 'i NexiaThermostatZoneEntity" where
  "NexiaThermostatZoneEntity_init coordinator zone name unique_id =
     NexiaThermostatEntity.extend
       (NexiaThermostatEntity_init coordinator (zone_thermostat zone) name unique_id)
       (NexiaThermostatZoneEntity.fields zone)"

text \<open>
  \<^verbatim>\<open>device_info\<close> of a zone entity takes the dictionary the parent class builds
  (\<^verbatim>\<open>super().device_info\<close>, a new dictionary at each evaluation) and updates four of
  its keys.
\<close>

definition NexiaThermostatZoneEntity_device_info ::
  "nexia_const \<Rightarrow> ('i, 'a) NexiaThermostatZoneEntity_scheme \<Rightarrow>
     (py_error + 'i DeviceInfo) \<times> ('i, 'a) NexiaThermostatZoneEntity_scheme" where
  "NexiaThermostatZoneEntity_device_info k self =
     (case NexiaThermostatEntity_device_info k self of
        (Inl err, self') \<Rightarrow> (Inl err, self')
      | (Inr data, self') \<Rightarrow>
          (let zone_name = zone_get_name (self_zone self')
           in (Inr (data ++
                  [''identifiers'' \<mapsto> Identifiers {(DOMAIN k, zone_id (self_zone self'))},
                   ''name'' \<mapsto> Str zone_name,
                   ''suggested_area'' \<mapsto> Str zone_name,
                   ''via_device'' \<mapsto>
                     Device (DOMAIN k, thermostat_id (zone_thermostat (self_zone self')))]),
               self')))"

definition NexiaThermostatZoneEntity_async_added_to_hass ::
  "('i \<Rightarrow> string) \<Rightarrow> nexia_const \<Rightarrow> ('i, 'a) NexiaThermostatZoneEntity_scheme \<Rightarrow> host_call list" where
  "NexiaThermostatZoneEntity_async_added_to_hass format_id k self =
     NexiaThermostatEntity_async_added_to_hass format_id k self @
     [async_dispatcher_connect
        (SIGNAL_ZONE_UPDATE k @ ''-'' @ format_id (zone_id (self_zone self)))
        async_write_ha_state,
      async_on_remove
        (disconnect
          (SIGNAL_ZONE_UPDATE k @ ''-'' @ format_id (zone_id (self_zone self)))
          async_write_ha_state)]"

definition NexiaThermostatZoneEntity_signal_zone_update ::
  "('i \<Rightarrow> string) \<Rightarrow> nexia_const \<Rightarrow> ('i, 'a) NexiaThermostatZoneEntity_scheme \<Rightarrow> host_call list" where
  "NexiaThermostatZoneEntity_signal_zone_update format_id k self =
     [async_dispatcher_send
        (SIGNAL_ZONE_UPDATE k @ ''-'' @ format_id (zone_id (self_zone self)))]"

section \<open>Sample values\<close>

text \<open>
  Concrete values to evaluate the definitions on. The amplifier answers every zone with a
  status made of the zone id and the number of calls it has answered so far, except that
  zone 13 gives no data and zone 99 makes the vendor call raise.
\<close>

definition example_amplifier :: "(nat, int, string) WS66i" where
  "example_amplifier =
     \<lparr>zone_status = (\<lambda>dev zone_id.
        (if zone_id = 13 then Returns None
         else if zone_id = 99 then Raises ''timeout''
         else Returns (Some (zone_id * 10 + int dev)),
         Suc dev))\<rparr>"

text \<open>
  Sample values of the imported constants, a thermostat with one zone, and a coordinator.
\<close>

definition example_const :: nexia_const where
  "example_const =
     \<lparr>ATTR_ATTRIBUTION = ''attribution'',
      ATTRIBUTION = ''Data provided by mynexia.com'',
      DOMAIN = ''nexia'',
      MANUFACTURER = ''Trane'',
      SIGNAL_THERMOSTAT_UPDATE = ''NEXIA_SIGNAL_THERMOSTAT_UPDATE'',
      SIGNAL_ZONE_UPDATE = ''NEXIA_SIGNAL_ZONE_UPDATE''\<rparr>"

definition example_zone :: "int NexiaThermostatZone" where
  "example_zone =
     \<lparr>zone_id = 7,
      zone_thermostat =
        \<lparr>thermostat_id = 3, thermostat_get_model = ''XL1050'',
         thermostat_get_name = ''Hallway'', thermostat_get_firmware = ''5.9.1''\<rparr>,
      zone_get_name = ''Upstairs''\<rparr>"

definition example_coordinator :: coordinator where
  "example_coordinator = NexiaDataUpdateCoordinator \<lparr>root_url = ''https://www.mynexia.com''\<rparr>"

section \<open>Properties of the WS66i coordinator\<close>

subsection \<open>The loop, with its accumulators taken out\<close>

lemma update_loop_acc:
  "update_loop api zs data dev calls =
     (case update_loop api zs [] dev [] of
        (r, d, c) \<Rightarrow> (case r of Inl e \<Rightarrow> Inl e | Inr ds \<Rightarrow> Inr (data @ ds), d, calls @ c))"
proof (induction zs arbitrary: data dev calls)
  case Nil
  show ?case by simp
next
  case (Cons z zs)
  obtain res dev' where zs: "zone_status api dev z = (res, dev')"
    by (cases "zone_status api dev z")
  show ?case
  proof (cases res)
    case (Raises x)
    with zs show ?thesis by simp
  next
    case (Returns o1)
    show ?thesis
    proof (cases o1)
      case None
      with zs Returns show ?thesis by simp
    next
      case (Some s)
      obtain r d c where base: "update_loop api zs [] dev' [] = (r, d, c)"
        by (cases "update_loop api zs [] dev' []")
      have a: "update_loop api zs (data @ [s]) dev' (calls @ [(z, Returns (Some s))]) =
                 (case r of Inl e \<Rightarrow> Inl e | Inr ds \<Rightarrow> Inr ((data @ [s]) @ ds), d,
                  (calls @ [(z, Returns (Some s))]) @ c)"
        using Cons.IH [of "data @ [s]" dev' "calls @ [(z, Returns (Some s))]"] base by simp
      have b: "update_loop api zs [s] dev' [(z, Returns (Some s))] =
                 (case r of Inl e \<Rightarrow> Inl e | Inr ds \<Rightarrow> Inr ([s] @ ds), d,
                  [(z, Returns (Some s))] @ c)"
        using Cons.IH [of "[s]" dev' "[(z, Returns (Some s))]"] base by simp
      show ?thesis
        using zs Returns Some a b by (cases r) simp_all
    qed
  qed
qed

lemma update_loop_Cons:
  "update_loop api (z # zs) [] dev [] =
     (case zone_status api dev z of
        (Raises x, dev') \<Rightarrow> (Inl (VendorError x), dev', [(z, Raises x)])
      | (Returns None, dev') \<Rightarrow>
          (Inl (UpdateFailed (''Failed to update zone '' @ str_int z)), dev', [(z, Returns None)])
      | (Returns (Some s), dev') \<Rightarrow>
          (case update_loop api zs [] dev' [] of
             (r, d, c) \<Rightarrow> (case r of Inl e \<Rightarrow> Inl e | Inr ds \<Rightarrow> Inr (s # ds), d,
                           (z, Returns (Some s)) # c)))"
proof -
  have "update_loop api zs [s] dev' [(z, Returns (Some s))] =
     (case update_loop api zs [] dev' [] of
             (r, d, c) \<Rightarrow> (case r of Inl e \<Rightarrow> Inl e | Inr ds \<Rightarrow> Inr (s # ds), d,
                           (z, Returns (Some s)) # c))" for s dev'
    by (subst update_loop_acc) (simp split: prod.splits sum.splits)
  then show ?thesis
    by (simp split: prod.splits call_result.splits option.splits)
qed

subsection \<open>The decimal rendering determines the integer\<close>








subsection \<open>The loop along the vendor's answers\<close>

lemma vendor_returns_statuses_Cons:
  "vendor_returns_statuses api (d # devs) (z # zones) (s # ss) \<longleftrightarrow>
     zone_status api d z = (Returns (Some s), devs ! 0) \<and>
     vendor_returns_statuses api devs zones ss"
proof -
  have "(\<forall>j < Suc (length ss). zone_status api ((d # devs) ! j) ((z # zones) ! j) =
           (Returns (Some ((s # ss) ! j)), (d # devs) ! Suc j)) \<longleftrightarrow>
        zone_status api d z = (Returns (Some s), devs ! 0) \<and>
        (\<forall>j < length ss. zone_status api (devs ! j) (zones ! j) =
           (Returns (Some (ss ! j)), devs ! Suc j))"
    by (simp add: All_less_Suc2)
  then show ?thesis
    by (auto simp: vendor_returns_statuses_def)
qed

lemma loop_after_statuses:
  "devs ! 0 = dev \<Longrightarrow> vendor_returns_statuses api devs zs ss \<Longrightarrow>
     update_loop api zs [] dev [] =
       (case update_loop api (drop (length ss) zs) [] (devs ! length ss) [] of
          (r, d, c) \<Rightarrow>
            (case r of Inl e \<Rightarrow> Inl e | Inr ds \<Rightarrow> Inr (ss @ ds), d,
             zip (take (length ss) zs) (map (\<lambda>s. Returns (Some s)) ss) @ c))"
proof (induction ss arbitrary: zs dev devs)
  case Nil
  then show ?case
    by (simp split: prod.splits sum.splits)
next
  case (Cons s ss)
  from Cons.prems(2) obtain z zs' where zs: "zs = z # zs'"
    by (cases zs) (simp_all add: vendor_returns_statuses_def)
  from Cons.prems(2) obtain d devs' where devs: "devs = d # devs'"
    by (cases devs) (simp_all add: vendor_returns_statuses_def)
  from Cons.prems(1) devs have d: "d = dev" by simp
  from Cons.prems(2) have step: "zone_status api dev z = (Returns (Some s), devs' ! 0)"
    and rest: "vendor_returns_statuses api devs' zs' ss"
    unfolding zs devs d vendor_returns_statuses_Cons by simp_all
  note ih = Cons.IH [OF refl rest]
  obtain r d1 c where tail: "update_loop api (drop (length ss) zs') [] (devs' ! length ss) [] = (r, d1, c)"
    by (cases "update_loop api (drop (length ss) zs') [] (devs' ! length ss) []")
  show ?case
    using step ih tail unfolding zs devs
    by (cases r) (simp_all add: update_loop_Cons del: update_loop.simps)
qed

lemma vendor_run_exists:
  "\<exists>devs ss. devs ! 0 = dev \<and> vendor_returns_statuses api devs zs ss \<and>
     (length ss = length zs \<or>
      (length ss < length zs \<and>
       (\<exists>res dev'. zone_status api (devs ! length ss) (zs ! length ss) = (res, dev') \<and>
          (\<forall>s. res \<noteq> Returns (Some s)))))"
proof (induction zs arbitrary: dev)
  case Nil
  show ?case
    by (rule exI [of _ "[dev]"], rule exI [of _ "[]"]) (simp add: vendor_returns_statuses_def)
next
  case (Cons z zs)
  obtain res d1 where zs: "zone_status api dev z = (res, d1)"
    by (cases "zone_status api dev z")
  show ?case
  proof (cases "\<exists>s. res = Returns (Some s)")
    case False
    then show ?thesis
      using zs
      by (intro exI [of _ "[dev]"] exI [of _ "[]"]) (simp add: vendor_returns_statuses_def)
  next
    case True
    then obtain s where s: "res = Returns (Some s)" by blast
    from Cons.IH [of d1] obtain devs ss where
      h: "devs ! 0 = d1" "vendor_returns_statuses api devs zs ss"
         "length ss = length zs \<or>
          (length ss < length zs \<and>
           (\<exists>res dev'. zone_status api (devs ! length ss) (zs ! length ss) = (res, dev') \<and>
              (\<forall>s. res \<noteq> Returns (Some s))))"
      by blast
    from h(2) have ne: "devs \<noteq> []"
      by (auto simp: vendor_returns_statuses_def)
    have p: "vendor_returns_statuses api (dev # devs) (z # zs) (s # ss)"
      using zs s h(1,2) by (simp add: vendor_returns_statuses_Cons)
    show ?thesis
      using p h(3)
      by (intro exI [of _ "dev # devs"] exI [of _ "s # ss"]) auto
  qed
qed

lemma run_record:
  assumes "update_loop (self_ws66i self) (self_zones self) [] dev [] = (r, d, c)"
  shows "update_all_zones self dev =
           \<lparr>outcome = r, self_after = self, device_after = d, queried = c\<rparr>"
  using assms by (simp add: update_all_zones_def)

lemma loop_all_statuses:
  assumes "devs ! 0 = dev" "vendor_returns_statuses api devs zs ss" "length ss = length zs"
  shows "update_loop api zs [] dev [] =
           (Inr ss, devs ! length zs, zip zs (map (\<lambda>s. Returns (Some s)) ss))"
  using loop_after_statuses [OF assms(1,2)] assms(3) by simp

lemma loop_stops:
  assumes "devs ! 0 = dev" "vendor_returns_statuses api devs zs ss" "length ss < length zs"
    and "zone_status api (devs ! length ss) (zs ! length ss) = (res, dev')"
    and "\<forall>s. res \<noteq> Returns (Some s)"
  shows "update_loop api zs [] dev [] =
           (Inl (case res of Raises x \<Rightarrow> VendorError x
                 | Returns _ \<Rightarrow> UpdateFailed (''Failed to update zone '' @ str_int (zs ! length ss))),
            dev',
            zip (take (length ss) zs) (map (\<lambda>s. Returns (Some s)) ss) @ [(zs ! length ss, res)])"
proof -
  have d: "drop (length ss) zs = zs ! length ss # drop (Suc (length ss)) zs"
    using assms(3) by (simp add: Cons_nth_drop_Suc)
  have "update_loop api (drop (length ss) zs) [] (devs ! length ss) [] =
          (Inl (case res of Raises x \<Rightarrow> VendorError x
                 | Returns _ \<Rightarrow> UpdateFailed (''Failed to update zone '' @ str_int (zs ! length ss))),
            dev', [(zs ! length ss, res)])"
    unfolding d using assms(4,5)
    by (cases res) (auto simp: update_loop_Cons simp del: update_loop.simps split: option.splits)
  with loop_after_statuses [OF assms(1,2)] show ?thesis by simp
qed

subsection \<open>What one update gives\<close>

text \<open>
  C7. When the vendor returns a status for every configured zone, asked in the order of
  the list (the statuses \<^verbatim>\<open>ss\<close>, the device going through the states \<^verbatim>\<open>devs\<close>),
  \<^verbatim>\<open>_update_all_zones\<close> returns the list \<^verbatim>\<open>ss\<close>: as long as the zone list, its
  i-th element the status the vendor returned for the i-th zone id. Every zone was queried
  once, in order, the device is left as the last call left it, and the coordinator is
  unchanged.
\<close>

theorem update_all_zones_all_statuses:
  assumes "devs ! 0 = dev"
    and "vendor_returns_statuses (self_ws66i self) devs (self_zones self) ss"
    and "length ss = length (self_zones self)"
  shows "outcome (update_all_zones self dev) = Inr ss \<and>
         length ss = length (self_zones self) \<and>
         (\<forall>i < length (self_zones self).
            fst (zone_status (self_ws66i self) (devs ! i) (self_zones self ! i)) = Returns (Some (ss ! i))) \<and>
         queried (update_all_zones self dev) =
           zip (self_zones self) (map (\<lambda>s. Returns (Some s)) ss) \<and>
         device_after (update_all_zones self dev) = devs ! length (self_zones self) \<and>
         self_after (update_all_zones self dev) = self"
proof -
  have "\<forall>i < length (self_zones self).
            fst (zone_status (self_ws66i self) (devs ! i) (self_zones self ! i)) = Returns (Some (ss ! i))"
    using assms(2,3) by (simp add: vendor_returns_statuses_def)
  then show ?thesis
    using run_record [OF loop_all_statuses [OF assms]] assms(3) by simp
qed

theorem update_all_zones_all_statuses_witness:
  "outcome (update_all_zones (Ws66iDataUpdateCoordinator_init example_amplifier [11, 12]) 0) =
     Inr [110, 121] \<and>
   queried (update_all_zones (Ws66iDataUpdateCoordinator_init example_amplifier [11, 12]) 0) =
     [(11, Returns (Some 110)), (12, Returns (Some 121))] \<and>
   device_after (update_all_zones (Ws66iDataUpdateCoordinator_init example_amplifier [11, 12]) 0) = 2"
proof -
  let ?c = "Ws66iDataUpdateCoordinator_init example_amplifier [11, 12]"
  have z: "self_zones ?c = [11, 12]" "self_ws66i ?c = example_amplifier"
    by (simp_all add: Ws66iDataUpdateCoordinator_init_def)
  have h1: "[0, 1, 2] ! 0 = (0::nat)"
    by simp
  have h2: "vendor_returns_statuses (self_ws66i ?c) [0, 1, 2] (self_zones ?c) [110, 121]"
    unfolding z by (simp add: vendor_returns_statuses_def example_amplifier_def less_Suc_eq)
  have h3: "length [110, 121 :: int] = length (self_zones ?c)"
    unfolding z by simp
  from update_all_zones_all_statuses [OF h1 h2 h3] show ?thesis
    unfolding z by simp
qed




text \<open>
  C1. \<^verbatim>\<open>_update_all_zones\<close> raises \<^verbatim>\<open>UpdateFailed\<close> exactly when the vendor returns
  \<^verbatim>\<open>None\<close> for a zone the loop queries, that is, a configured zone such that the vendor
  returned a status for every zone before it. It fails with an exception of the vendor's
  exactly when the vendor call for such a zone raises that exception, and it returns
  exactly when the vendor returns a status for every configured zone: no other answer of
  the vendor becomes an error.
\<close>

theorem update_failed_iff_no_data:
  "((\<exists>msg. outcome (update_all_zones self dev) = Inl (UpdateFailed msg)) \<longleftrightarrow>
      (\<exists>devs ss dev'. devs ! 0 = dev \<and>
         vendor_returns_statuses (self_ws66i self) devs (self_zones self) ss \<and>
         length ss < length (self_zones self) \<and>
         zone_status (self_ws66i self) (devs ! length ss) (self_zones self ! length ss) =
           (Returns None, dev'))) \<and>
   (outcome (update_all_zones self dev) = Inl (VendorError x) \<longleftrightarrow>
      (\<exists>devs ss dev'. devs ! 0 = dev \<and>
         vendor_returns_statuses (self_ws66i self) devs (self_zones self) ss \<and>
         length ss < length (self_zones self) \<and>
         zone_status (self_ws66i self) (devs ! length ss) (self_zones self ! length ss) =
           (Raises x, dev'))) \<and>
   ((\<exists>data. outcome (update_all_zones self dev) = Inr data) \<longleftrightarrow>
      (\<exists>devs ss. devs ! 0 = dev \<and>
         vendor_returns_statuses (self_ws66i self) devs (self_zones self) ss \<and>
         length ss = length (self_zones self)))"
proof -
  let ?api = "self_ws66i self" and ?zs = "self_zones self"
  let ?o = "outcome (update_all_zones self dev)"
  define no_data where "no_data \<longleftrightarrow>
      (\<exists>devs ss dev'. devs ! 0 = dev \<and> vendor_returns_statuses ?api devs ?zs ss \<and>
         length ss < length ?zs \<and>
         zone_status ?api (devs ! length ss) (?zs ! length ss) = (Returns None, dev'))"
  define raises where "raises y \<longleftrightarrow>
      (\<exists>devs ss dev'. devs ! 0 = dev \<and> vendor_returns_statuses ?api devs ?zs ss \<and>
         length ss < length ?zs \<and>
         zone_status ?api (devs ! length ss) (?zs ! length ss) = (Raises y, dev'))" for y
  define all_ok where "all_ok \<longleftrightarrow>
      (\<exists>devs ss. devs ! 0 = dev \<and> vendor_returns_statuses ?api devs ?zs ss \<and>
         length ss = length ?zs)"
  have fwd_none: "\<exists>msg. ?o = Inl (UpdateFailed msg)" if no_data
  proof -
    from that obtain devs ss dev' where h: "devs ! 0 = dev"
      "vendor_returns_statuses ?api devs ?zs ss" "length ss < length ?zs"
      "zone_status ?api (devs ! length ss) (?zs ! length ss) = (Returns None, dev')"
      unfolding no_data_def by blast
    from run_record [OF loop_stops [OF h(1,2,3,4)]] show ?thesis by simp
  qed
  have fwd_raise: "?o = Inl (VendorError y)" if "raises y" for y
  proof -
    from that obtain devs ss dev' where h: "devs ! 0 = dev"
      "vendor_returns_statuses ?api devs ?zs ss" "length ss < length ?zs"
      "zone_status ?api (devs ! length ss) (?zs ! length ss) = (Raises y, dev')"
      unfolding raises_def by blast
    from run_record [OF loop_stops [OF h(1,2,3,4)]] show ?thesis by simp
  qed
  have fwd_ok: "\<exists>data. ?o = Inr data" if all_ok
  proof -
    from that obtain devs ss where h: "devs ! 0 = dev"
      "vendor_returns_statuses ?api devs ?zs ss" "length ss = length ?zs"
      unfolding all_ok_def by blast
    from run_record [OF loop_all_statuses [OF h]] show ?thesis by simp
  qed
  have some_case: "all_ok \<or> no_data \<or> (\<exists>y. raises y)"
  proof -
    from vendor_run_exists [of dev ?api ?zs] obtain devs ss where
      h: "devs ! 0 = dev" "vendor_returns_statuses ?api devs ?zs ss"
      and alt: "length ss = length ?zs \<or>
          (length ss < length ?zs \<and>
           (\<exists>res dev'. zone_status ?api (devs ! length ss) (?zs ! length ss) = (res, dev') \<and>
              (\<forall>s. res \<noteq> Returns (Some s))))"
      by blast
    from alt show ?thesis
    proof
      assume "length ss = length ?zs"
      with h have all_ok unfolding all_ok_def by blast
      then show ?thesis by simp
    next
      assume "length ss < length ?zs \<and>
           (\<exists>res dev'. zone_status ?api (devs ! length ss) (?zs ! length ss) = (res, dev') \<and>
              (\<forall>s. res \<noteq> Returns (Some s)))"
      then obtain res dev' where l: "length ss < length ?zs"
        and z: "zone_status ?api (devs ! length ss) (?zs ! length ss) = (res, dev')"
        and n: "\<forall>s. res \<noteq> Returns (Some s)"
        by blast
      show ?thesis
      proof (cases res)
        case (Raises y)
        with h l z have "raises y" unfolding raises_def by blast
        then show ?thesis by blast
      next
        case (Returns o1)
        with n have "o1 = None" by (cases o1) simp_all
        with Returns h l z have no_data unfolding no_data_def by blast
        then show ?thesis by simp
      qed
    qed
  qed
  have a: "(\<exists>msg. ?o = Inl (UpdateFailed msg)) \<longleftrightarrow> no_data"
    using fwd_none fwd_raise fwd_ok some_case by (metis Inl_Inr_False exn.distinct(1) sum.inject(1))
  have b: "?o = Inl (VendorError x) \<longleftrightarrow> raises x"
    using fwd_none fwd_raise fwd_ok some_case
    by (metis Inl_Inr_False exn.distinct(1) exn.inject(2) sum.inject(1))
  have c: "(\<exists>data. ?o = Inr data) \<longleftrightarrow> all_ok"
    using fwd_none fwd_raise fwd_ok some_case by (metis Inl_Inr_False)
  from a b c show ?thesis
    unfolding no_data_def raises_def all_ok_def by blast
qed

theorem update_failed_iff_no_data_witness:
  "(\<exists>msg. outcome (update_all_zones (Ws66iDataUpdateCoordinator_init example_amplifier [11, 13, 12]) 0) =
      Inl (UpdateFailed msg)) \<and>
   outcome (update_all_zones (Ws66iDataUpdateCoordinator_init example_amplifier [11, 99, 13]) 0) =
      Inl (VendorError ''timeout'')"
proof -
  let ?c = "Ws66iDataUpdateCoordinator_init example_amplifier [11, 13, 12]"
  let ?d = "Ws66iDataUpdateCoordinator_init example_amplifier [11, 99, 13]"
  have zc: "self_zones ?c = [11, 13, 12]" "self_ws66i ?c = example_amplifier"
    by (simp_all add: Ws66iDataUpdateCoordinator_init_def)
  have zd: "self_zones ?d = [11, 99, 13]" "self_ws66i ?d = example_amplifier"
    by (simp_all add: Ws66iDataUpdateCoordinator_init_def)
  have "[0, 1] ! 0 = (0::nat) \<and>
        vendor_returns_statuses (self_ws66i ?c) [0, 1] (self_zones ?c) [110] \<and>
        length [110 :: int] < length (self_zones ?c) \<and>
        zone_status (self_ws66i ?c) ([0, 1] ! length [110 :: int]) (self_zones ?c ! length [110 :: int]) =
          (Returns None, 2)"
    unfolding zc by (simp add: vendor_returns_statuses_def example_amplifier_def)
  then have "\<exists>devs ss dev'. devs ! 0 = 0 \<and>
        vendor_returns_statuses (self_ws66i ?c) devs (self_zones ?c) ss \<and>
        length ss < length (self_zones ?c) \<and>
        zone_status (self_ws66i ?c) (devs ! length ss) (self_zones ?c ! length ss) =
          (Returns None, dev')"
    by blast
  with update_failed_iff_no_data [of ?c 0]
  have a: "\<exists>msg. outcome (update_all_zones ?c 0) = Inl (UpdateFailed msg)"
    by blast
  have "[0, 1] ! 0 = (0::nat) \<and>
        vendor_returns_statuses (self_ws66i ?d) [0, 1] (self_zones ?d) [110] \<and>
        length [110 :: int] < length (self_zones ?d) \<and>
        zone_status (self_ws66i ?d) ([0, 1] ! length [110 :: int]) (self_zones ?d ! length [110 :: int]) =
          (Raises ''timeout'', 2)"
    unfolding zd by (simp add: vendor_returns_statuses_def example_amplifier_def)
  then have "\<exists>devs ss dev'. devs ! 0 = 0 \<and>
        vendor_returns_statuses (self_ws66i ?d) devs (self_zones ?d) ss \<and>
        length ss < length (self_zones ?d) \<and>
        zone_status (self_ws66i ?d) (devs ! length ss) (self_zones ?d ! length ss) =
          (Raises ''timeout'', dev')"
    by blast
  with update_failed_iff_no_data [of ?d 0 "''timeout''"]
  have b: "outcome (update_all_zones ?d 0) = Inl (VendorError ''timeout'')"
    by blast
  from a b show ?thesis by blast
qed

subsection \<open>The asynchronous update\<close>

text \<open>
  C3. Run by the host, \<^verbatim>\<open>_async_update_data\<close> hands one job to the executor, the
  coordinator's \<^verbatim>\<open>_update_all_zones\<close>, and gives what that job gives on the same state:
  it returns the list \<^verbatim>\<open>_update_all_zones\<close> returns, raises the exception
  \<^verbatim>\<open>_update_all_zones\<close> raises, and so fails exactly when \<^verbatim>\<open>_update_all_zones\<close>
  does; the device is left as the job left it.
\<close>

theorem async_update_data_delegates:
  "run_coroutine (async_update_data self) dev =
     ([update_all_zones self], outcome (update_all_zones self dev),
      device_after (update_all_zones self dev)) \<and>
   (fst (snd (run_coroutine (async_update_data self) dev)) = Inr data \<longleftrightarrow>
      outcome (update_all_zones self dev) = Inr data) \<and>
   (fst (snd (run_coroutine (async_update_data self) dev)) = Inl e \<longleftrightarrow>
      outcome (update_all_zones self dev) = Inl e)"
proof -
  have run: "run_coroutine (async_update_data self) dev =
     ([update_all_zones self], outcome (update_all_zones self dev),
      device_after (update_all_zones self dev))"
    by (cases "outcome (update_all_zones self dev)") (simp_all add: async_update_data_def)
  then show ?thesis
    by simp
qed

section \<open>Properties of the Nexia entities\<close>

subsection \<open>What the constructors store\<close>

lemma init_zone_fields:
  "self_coordinator (NexiaThermostatZoneEntity_init c z n u) = c"
  "self_unique_id (NexiaThermostatZoneEntity_init c z n u) = u"
  "self_name (NexiaThermostatZoneEntity_init c z n u) = n"
  "self_thermostat (NexiaThermostatZoneEntity_init c z n u) = zone_thermostat z"
  "self_zone (NexiaThermostatZoneEntity_init c z n u) = z"
  by (simp_all add: NexiaThermostatZoneEntity_init_def NexiaThermostatEntity_init_def
        NexiaEntity_init_def NexiaEntity.defs NexiaThermostatEntity.defs
        NexiaThermostatZoneEntity.defs)

subsection \<open>Names and ids\<close>

text \<open>
  C4. A \<^verbatim>\<open>NexiaEntity\<close> built from a coordinator, a name and a unique id gives back
  that unique id as \<^verbatim>\<open>unique_id\<close> and that name as \<^verbatim>\<open>name\<close>.
\<close>

theorem nexia_entity_pass_through:
  "fst (NexiaEntity_unique_id (NexiaEntity_init coordinator name unique_id)) = unique_id \<and>
   fst (NexiaEntity_name (NexiaEntity_init coordinator name unique_id)) = name"
  by (simp add: NexiaEntity_unique_id_def NexiaEntity_name_def NexiaEntity_init_def)

text \<open>
  C2, as the code has it. The \<^verbatim>\<open>name\<close> of a \<^verbatim>\<open>NexiaThermostatZoneEntity\<close> is the
  name its constructor was given, whatever the zone is called: it is the zone's
  \<^verbatim>\<open>get_name()\<close> exactly when that is the name the constructor was given.
\<close>

theorem zone_entity_name_is_constructor_name:
  "fst (NexiaEntity_name (NexiaThermostatZoneEntity_init coordinator zone name unique_id)) = name \<and>
   (fst (NexiaEntity_name (NexiaThermostatZoneEntity_init coordinator zone name unique_id)) =
      zone_get_name zone \<longleftrightarrow> name = zone_get_name zone)"
  by (simp add: NexiaEntity_name_def init_zone_fields)

text \<open>
  C2, as the claim states it, fails: a zone entity built on the zone called
  \<^verbatim>\<open>Upstairs\<close> with the name \<^verbatim>\<open>Upstairs Temperature\<close> has the latter as its name.
\<close>

theorem zone_entity_name_counterexample:
  "fst (NexiaEntity_name
         (NexiaThermostatZoneEntity_init example_coordinator example_zone
            ''Upstairs Temperature'' ''7_temperature''))
     \<noteq> zone_get_name example_zone"
  by (simp add: NexiaEntity_name_def init_zone_fields example_zone_def)

subsection \<open>Signals\<close>

text \<open>
  C5. \<^verbatim>\<open>_signal_thermostat_update\<close> sends one signal, named
  \<^verbatim>\<open>SIGNAL_THERMOSTAT_UPDATE\<close>, a dash and the thermostat id, and
  \<^verbatim>\<open>async_added_to_hass\<close> of the thermostat entity subscribes
  \<^verbatim>\<open>async_write_ha_state\<close> to the signal of that name. \<^verbatim>\<open>_signal_zone_update\<close> sends
  one signal, named \<^verbatim>\<open>SIGNAL_ZONE_UPDATE\<close>, a dash and the zone id, and
  \<^verbatim>\<open>async_added_to_hass\<close> of the zone entity subscribes \<^verbatim>\<open>async_write_ha_state\<close> to
  the signal of that name, next to the thermostat's signal, which the call to the parent
  class subscribes it to.
\<close>

theorem signals_sent_are_signals_subscribed:
  "NexiaThermostatEntity_signal_thermostat_update format_id k t =
     [async_dispatcher_send
        (SIGNAL_THERMOSTAT_UPDATE k @ ''-'' @ format_id (thermostat_id (self_thermostat t)))] \<and>
   async_dispatcher_connect
     (SIGNAL_THERMOSTAT_UPDATE k @ ''-'' @ format_id (thermostat_id (self_thermostat t)))
     async_write_ha_state
     \<in> set (NexiaThermostatEntity_async_added_to_hass format_id k t) \<and>
   NexiaThermostatZoneEntity_signal_zone_update format_id k z =
     [async_dispatcher_send
        (SIGNAL_ZONE_UPDATE k @ ''-'' @ format_id (zone_id (self_zone z)))] \<and>
   async_dispatcher_connect
     (SIGNAL_ZONE_UPDATE k @ ''-'' @ format_id (zone_id (self_zone z)))
     async_write_ha_state
     \<in> set (NexiaThermostatZoneEntity_async_added_to_hass format_id k z) \<and>
   async_dispatcher_connect
     (SIGNAL_THERMOSTAT_UPDATE k @ ''-'' @ format_id (thermostat_id (self_thermostat z)))
     async_write_ha_state
     \<in> set (NexiaThermostatZoneEntity_async_added_to_hass format_id k z)"
  by (simp add: NexiaThermostatEntity_signal_thermostat_update_def
        NexiaThermostatEntity_async_added_to_hass_def
        NexiaThermostatZoneEntity_signal_zone_update_def
        NexiaThermostatZoneEntity_async_added_to_hass_def)

subsection \<open>Properties read and do not write\<close>

text \<open>
  C6. Evaluating \<^verbatim>\<open>unique_id\<close>, \<^verbatim>\<open>name\<close> or \<^verbatim>\<open>extra_state_attributes\<close> on an
  entity of any of the three classes, \<^verbatim>\<open>device_info\<close> on a thermostat entity or
  \<^verbatim>\<open>device_info\<close> on a zone entity leaves the entity as it was, every field of it,
  also when \<^verbatim>\<open>device_info\<close> fails its assertion.
\<close>

theorem properties_leave_entity_unchanged:
  "snd (NexiaEntity_unique_id e) = e \<and>
   snd (NexiaEntity_name e) = e \<and>
   snd (NexiaEntity_extra_state_attributes k e) = e \<and>
   snd (NexiaThermostatEntity_device_info k t) = t \<and>
   snd (NexiaThermostatZoneEntity_device_info k z) = z"
  by (simp add: NexiaEntity_unique_id_def NexiaEntity_name_def
        NexiaEntity_extra_state_attributes_def NexiaThermostatEntity_device_info_def
        NexiaThermostatZoneEntity_device_info_def Let_def split: coordinator.splits)

subsection \<open>The device of a zone\<close>

text \<open>
  C9. On an entity whose coordinator is a \<^verbatim>\<open>NexiaDataUpdateCoordinator\<close>, as the
  constructor's annotation has it, the parent class gives a \<^verbatim>\<open>DeviceInfo\<close> and
  \<^verbatim>\<open>device_info\<close> of the zone entity gives that dictionary with four keys set from the
  zone: \<^verbatim>\<open>identifiers\<close> from the zone id, \<^verbatim>\<open>name\<close> and \<^verbatim>\<open>suggested_area\<close> both
  the zone's \<^verbatim>\<open>get_name()\<close>, and \<^verbatim>\<open>via_device\<close> the pair of the domain and the id
  of the zone's thermostat. Every other key is as the parent class gave it,
  \<^verbatim>\<open>configuration_url\<close>, \<^verbatim>\<open>manufacturer\<close>, \<^verbatim>\<open>model\<close> and \<^verbatim>\<open>sw_version\<close> among
  them, and there are no further keys. When the entity's thermostat is the zone's
  thermostat, as the constructor makes it, \<^verbatim>\<open>via_device\<close> is the pair by which the
  parent class identifies its device.
\<close>

theorem zone_device_info_overrides:
  assumes coordinator: "self_coordinator self = NexiaDataUpdateCoordinator home"
  shows "\<exists>parent info.
           fst (NexiaThermostatEntity_device_info k self) = Inr parent \<and>
           fst (NexiaThermostatZoneEntity_device_info k self) = Inr info \<and>
           info ''identifiers'' = Some (Identifiers {(DOMAIN k, zone_id (self_zone self))}) \<and>
           info ''name'' = Some (Str (zone_get_name (self_zone self))) \<and>
           info ''suggested_area'' = Some (Str (zone_get_name (self_zone self))) \<and>
           info ''via_device'' =
             Some (Device (DOMAIN k, thermostat_id (zone_thermostat (self_zone self)))) \<and>
           (\<forall>key. key \<notin> {''identifiers'', ''name'', ''suggested_area'', ''via_device''} \<longrightarrow>
                  info key = parent key) \<and>
           info ''configuration_url'' = parent ''configuration_url'' \<and>
           info ''manufacturer'' = parent ''manufacturer'' \<and>
           info ''model'' = parent ''model'' \<and>
           info ''sw_version'' = parent ''sw_version'' \<and>
           info ''configuration_url'' = Some (Str (root_url home)) \<and>
           info ''manufacturer'' = Some (Str (MANUFACTURER k)) \<and>
           info ''model'' = Some (Str (thermostat_get_model (self_thermostat self))) \<and>
           info ''sw_version'' = Some (Str (thermostat_get_firmware (self_thermostat self))) \<and>
           dom info = {''configuration_url'', ''identifiers'', ''manufacturer'', ''model'', ''name'',
                       ''suggested_area'', ''sw_version'', ''via_device''} \<and>
           (self_thermostat self = zone_thermostat (self_zone self) \<longrightarrow>
              parent ''identifiers'' =
                Some (Identifiers {(DOMAIN k, thermostat_id (zone_thermostat (self_zone self)))}))"
proof -
  let ?parent = "[''configuration_url'' \<mapsto> Str (root_url home),
              ''identifiers'' \<mapsto> Identifiers {(DOMAIN k, thermostat_id (self_thermostat self))},
              ''manufacturer'' \<mapsto> Str (MANUFACTURER k),
              ''model'' \<mapsto> Str (thermostat_get_model (self_thermostat self)),
              ''name'' \<mapsto> Str (thermostat_get_name (self_thermostat self)),
              ''sw_version'' \<mapsto> Str (thermostat_get_firmware (self_thermostat self))]"
  let ?upd = "[''identifiers'' \<mapsto> Identifiers {(DOMAIN k, zone_id (self_zone self))},
                   ''name'' \<mapsto> Str (zone_get_name (self_zone self)),
                   ''suggested_area'' \<mapsto> Str (zone_get_name (self_zone self)),
                   ''via_device'' \<mapsto>
                     Device (DOMAIN k, thermostat_id (zone_thermostat (self_zone self)))]"
  have p: "NexiaThermostatEntity_device_info k self = (Inr ?parent, self)"
    using coordinator by (simp add: NexiaThermostatEntity_device_info_def)
  have z: "fst (NexiaThermostatZoneEntity_device_info k self) = Inr (?parent ++ ?upd)"
    by (simp add: NexiaThermostatZoneEntity_device_info_def p Let_def)
  have keep: "\<forall>key. key \<notin> {''identifiers'', ''name'', ''suggested_area'', ''via_device''} \<longrightarrow>
                  (?parent ++ ?upd) key = ?parent key"
    by (simp add: map_add_def)
  have d: "dom (?parent ++ ?upd) =
             {''configuration_url'', ''identifiers'', ''manufacturer'', ''model'', ''name'',
              ''suggested_area'', ''sw_version'', ''via_device''}"
    by auto
  have pf: "fst (NexiaThermostatEntity_device_info k self) = Inr ?parent"
    by (simp add: p)
  show ?thesis
    by (intro exI [of _ ?parent] exI [of _ "?parent ++ ?upd"] conjI pf z keep d)
       (simp_all add: map_add_def)
qed

theorem zone_device_info_overrides_witness:
  "\<exists>info. fst (NexiaThermostatZoneEntity_device_info example_const
             (NexiaThermostatZoneEntity_init example_coordinator example_zone
                ''Upstairs Temperature'' ''7_temperature'')) = Inr info \<and>
     info ''identifiers'' = Some (Identifiers {(''nexia'', 7)}) \<and>
     info ''name'' = Some (Str ''Upstairs'') \<and>
     info ''suggested_area'' = Some (Str ''Upstairs'') \<and>
     info ''via_device'' = Some (Device (''nexia'', 3)) \<and>
     info ''configuration_url'' = Some (Str ''https://www.mynexia.com'') \<and>
     info ''manufacturer'' = Some (Str ''Trane'') \<and>
     info ''model'' = Some (Str ''XL1050'') \<and>
     info ''sw_version'' = Some (Str ''5.9.1'')"
proof -
  let ?e = "NexiaThermostatZoneEntity_init example_coordinator example_zone
              ''Upstairs Temperature'' ''7_temperature''"
  have h: "self_coordinator ?e = NexiaDataUpdateCoordinator \<lparr>root_url = ''https://www.mynexia.com''\<rparr>"
    by (simp add: init_zone_fields example_coordinator_def)
  from zone_device_info_overrides [OF h, of example_const] show ?thesis
    by (auto simp: init_zone_fields example_zone_def example_const_def)
qed

end
